theory Spec2Isabelle
  imports Complex_Main "HOL-Library.Multiset"
begin

section \<open>Nutrition dashboard: data model\<close>

text \<open>
  The dashboard of \<^verbatim>\<open>main7.py\<close> reads a CSV file into a pandas frame and builds
  three plotly figures from it. Nutrient values are modelled as real numbers: the
  model leaves out the rounding of IEEE doubles, and the one special value that occurs,
  NaN, is written \<open>None\<close> where a cell or a statistic can be missing. A character of a
  \<open>string\<close> stands for one code point of the Python string.

  A frame is taken to have the five columns the builders read (\<^verbatim>\<open>Food Name\<close>,
  \<^verbatim>\<open>prot_g\<close>, \<^verbatim>\<open>tot_fat_g\<close>, \<^verbatim>\<open>tot_fib_g\<close>, \<^verbatim>\<open>carb_g\<close>), text in the first
  and numbers in the others; any further columns are kept as \<open>raw_extra\<close>.
\<close>

datatype exn = FileNotFoundError | PermissionError | EmptyDataError | ParserError
  | UnicodeDecodeError | KeyError

text \<open>A row as \<^verbatim>\<open>pd.read_csv\<close> delivers it: an empty cell is NaN, here \<open>None\<close>.\<close>

record raw_row =
  raw_name :: "string option"
  raw_prot :: "real option"
  raw_fat :: "real option"
  raw_fib :: "real option"
  raw_carb :: "real option"
  raw_extra :: "string option list"

record raw_frame =
  raw_columns :: "string list"
  raw_rows :: "raw_row list"

text \<open>A row with every cell present.\<close>

record food_row =
  Food_Name :: string
  prot_g :: real
  tot_fat_g :: real
  tot_fib_g :: real
  carb_g :: real

record dataframe =
  columns :: "string list"
  rows :: "food_row list"

datatype ui_event = StError string | StException exn | Rendered string

section \<open>The loader\<close>

text \<open>
  \<^verbatim>\<open>str.strip()\<close> removes leading and trailing whitespace. Among the code points
  below 256 the whitespace characters are 9 to 13, 28 to 32, 133 and 160.
\<close>

definition is_space :: "char \<Rightarrow> bool" where
  "is_space c =
     (let n = (of_char c :: nat)
      in (9 \<le> n \<and> n \<le> 13) \<or> (28 \<le> n \<and> n \<le> 32) \<or> n = 133 \<or> n = 160)"

definition str_strip :: "string \<Rightarrow> string" where
  "str_strip s = rev (dropWhile is_space (rev (dropWhile is_space s)))"

text \<open>
  \<^verbatim>\<open>df.dropna()\<close> keeps a row only when none of its cells, in any column, is missing.
\<close>

definition complete_row :: "raw_row \<Rightarrow> food_row option" where
  "complete_row x =
     (case (raw_name x, raw_prot x, raw_fat x, raw_fib x, raw_carb x) of
        (Some n, Some p, Some f, Some b, Some c) \<Rightarrow>
          if list_all (\<lambda>e. e \<noteq> None) (raw_extra x)
          then Some \<lparr>Food_Name = n, prot_g = p, tot_fat_g = f, tot_fib_g = b, carb_g = c\<rparr>
          else None
      | _ \<Rightarrow> None)"

definition dropna :: "raw_row list \<Rightarrow> food_row list" where
  "dropna xs = List.map_filter complete_row xs"

text \<open>
  \<^verbatim>\<open>load_data\<close>: the argument is the outcome of \<^verbatim>\<open>pd.read_csv('v1_veg.csv')\<close>, an
  exception or a frame. Only \<^verbatim>\<open>FileNotFoundError\<close> is caught: the message is shown
  and \<^verbatim>\<open>None\<close> returned. Any other exception leaves the function (\<open>Inl\<close>). The
  result pairs the messages shown with the returned value.
\<close>

definition load_data :: "exn + raw_frame \<Rightarrow> exn + (ui_event list \<times> dataframe option)" where
  "load_data src =
     (case src of
        Inr df \<Rightarrow>
          Inr ([], Some \<lparr>columns = map str_strip (raw_columns df), rows = dropna (raw_rows df)\<rparr>)
      | Inl FileNotFoundError \<Rightarrow>
          Inr ([StError ''Please upload your csv file to use this app.''], None)
      | Inl e \<Rightarrow> Inl e)"

text \<open>
  \<^verbatim>\<open>main\<close>: returns at once when the loader gave \<^verbatim>\<open>None\<close>. The argument
  \<open>page\<close> stands for the rest of the function (the widgets and charts drawn from the
  loaded frame).
\<close>

definition main :: "exn + raw_frame \<Rightarrow> (dataframe \<Rightarrow> ui_event list) \<Rightarrow> exn + ui_event list" where
  "main src page =
     (case load_data src of
        Inl e \<Rightarrow> Inl e
      | Inr (shown, None) \<Rightarrow> Inr shown
      | Inr (shown, Some df) \<Rightarrow> Inr (shown @ page df))"

text \<open>
  The page of one run of the script. Streamlit shows an exception that leaves the script
  on the page and ends the run; what was shown before it stays.
\<close>

definition script_run :: "exn + raw_frame \<Rightarrow> (dataframe \<Rightarrow> ui_event list) \<Rightarrow> ui_event list" where
  "script_run src page =
     (case main src page of
        Inl e \<Rightarrow> [StException e]
      | Inr shown \<Rightarrow> shown)"

section \<open>The radar chart\<close>

text \<open>
  A column name of the source is modelled by the selector of its field, so that
  \<^verbatim>\<open>row[nutrient]\<close> is \<open>nutrient row\<close>.
\<close>

definition nutrients :: "(food_row \<Rightarrow> real) list" where
  "nutrients = [prot_g, tot_fat_g, tot_fib_g, carb_g]"

definition labels :: "string list" where
  "labels = [''Protein (g)'', ''Fat (g)'', ''Fiber (g)'', ''Carbs (g)'']"

definition colors :: "string list" where
  "colors = [''#E74C3C'', ''#3498DB'', ''#2ECC71'', ''#F39C12'', ''#9B59B6'']"

record polar_trace =
  sp_r :: "real list"
  sp_theta :: "string list"
  sp_fill :: string
  sp_name :: string
  sp_line_color :: string
  sp_fillcolor :: string

text \<open>
  The figure: its traces and, once \<^verbatim>\<open>update_layout\<close> has run, the range of the
  radial axis. A bare \<^verbatim>\<open>go.Figure()\<close> has no traces and no range.
\<close>

record radar_figure =
  polar_traces :: "polar_trace list"
  radial_range :: "(real \<times> real) option"

text \<open>
  The maximum of a series, and Python's \<^verbatim>\<open>max\<close> of a list. Both are only called on
  non-empty lists here (the source guards the call with \<^verbatim>\<open>not selected_data.empty\<close>).
\<close>

definition series_max :: "real list \<Rightarrow> real" where
  "series_max xs = Max (set xs)"

definition radar_display_name :: "string \<Rightarrow> string" where
  "radar_display_name food = (if length food \<le> 20 then food else take 17 food @ ''...'')"

text \<open>The body of the loop over \<^verbatim>\<open>enumerate(selected_foods)\<close>: the traces it adds.\<close>

definition radar_trace :: "dataframe \<Rightarrow> nat \<times> string \<Rightarrow> polar_trace list" where
  "radar_trace df p =
     (case p of (i, food) \<Rightarrow>
        (case filter (\<lambda>x. Food_Name x = food) (rows df) of
           [] \<Rightarrow> []
         | food_row # _ \<Rightarrow>
             [\<lparr>sp_r = map (\<lambda>nutrient. nutrient food_row) nutrients,
               sp_theta = labels,
               sp_fill = ''toself'',
               sp_name = radar_display_name food,
               sp_line_color = colors ! (i mod length colors),
               sp_fillcolor = colors ! (i mod length colors)\<rparr>]))"

definition create_radar_chart :: "string list \<Rightarrow> dataframe \<Rightarrow> radar_figure" where
  "create_radar_chart selected_foods df =
     (if selected_foods = [] then \<lparr>polar_traces = [], radial_range = None\<rparr>
      else
        let selected_data = filter (\<lambda>x. Food_Name x \<in> set selected_foods) (rows df);
            chart_max =
              (if selected_data \<noteq> []
               then max (series_max (map (\<lambda>nutrient. series_max (map nutrient selected_data))
                                       nutrients) * 1.3) 10
               else 50)
        in \<lparr>polar_traces = concat (map (radar_trace df) (enumerate 0 selected_foods)),
            radial_range = Some (0, chart_max)\<rparr>)"

section \<open>The scatter overview\<close>

record scatter_figure =
  sc_x :: "real list"
  sc_y :: "real list"
  sc_marker_color :: "real list"
  sc_text :: "string list"
  sc_mode :: string
  sc_title :: string

definition create_scatter_overview :: "dataframe \<Rightarrow> scatter_figure" where
  "create_scatter_overview df =
     \<lparr>sc_x = map prot_g (rows df),
      sc_y = map tot_fib_g (rows df),
      sc_marker_color = map carb_g (rows df),
      sc_text = map Food_Name (rows df),
      sc_mode = ''markers'',
      sc_title = ''All Vegetables: Protein vs Fiber (Color = Carbs)''\<rparr>"

section \<open>The top performers chart\<close>

datatype nutrient = Protein | Fat | Fiber | Carbs

fun nutrient_map :: "nutrient \<Rightarrow> food_row \<Rightarrow> real" where
  "nutrient_map Protein = prot_g"
| "nutrient_map Fat = tot_fat_g"
| "nutrient_map Fiber = tot_fib_g"
| "nutrient_map Carbs = carb_g"

fun color_map :: "nutrient \<Rightarrow> string" where
  "color_map Protein = ''#E74C3C''"
| "color_map Fat = ''#3498DB''"
| "color_map Fiber = ''#2ECC71''"
| "color_map Carbs = ''#F39C12''"

fun nutrient_name :: "nutrient \<Rightarrow> string" where
  "nutrient_name Protein = ''Protein''"
| "nutrient_name Fat = ''Fat''"
| "nutrient_name Fiber = ''Fiber''"
| "nutrient_name Carbs = ''Carbs''"

text \<open>
  \<^verbatim>\<open>df.nlargest(n, col)\<close>: the first \<open>n\<close> rows in descending order of the column,
  rows of equal value in their order in the frame (\<^verbatim>\<open>keep='first'\<close>).
\<close>

definition nlargest :: "nat \<Rightarrow> (food_row \<Rightarrow> real) \<Rightarrow> food_row list \<Rightarrow> food_row list" where
  "nlargest n col xs = take n (sort_key (\<lambda>x. - col x) xs)"

definition top_display_name :: "string \<Rightarrow> string" where
  "top_display_name x = (if length x > 25 then take 25 x @ ''...'' else x)"

text \<open>
  \<^verbatim>\<open>Series.quantile(q)\<close> with linear interpolation: on the sorted values at the
  position \<open>q * (n - 1)\<close>. The quantile of an empty series is NaN (\<open>None\<close>).
\<close>

definition quantile :: "real list \<Rightarrow> real \<Rightarrow> real option" where
  "quantile xs q =
     (if xs = [] then None
      else
        let s = sort xs;
            h = q * real (length s - 1);
            lo = nat \<lfloor>h\<rfloor>;
            hi = min (lo + 1) (length s - 1)
        in Some (s ! lo + (h - real lo) * (s ! hi - s ! lo)))"

text \<open>The dictionary \<^verbatim>\<open>percentiles[nutrient]\<close>, from the quantile level to its value.\<close>

definition percentiles :: "dataframe \<Rightarrow> nutrient \<Rightarrow> (real \<rightharpoonup> real option)" where
  "percentiles df nutrient =
     map_of (map (\<lambda>q. (q, quantile (map (nutrient_map nutrient) (rows df)) q))
               [0.25, 0.5, 0.75, 0.9, 0.95])"

definition lookup :: "('k \<rightharpoonup> 'v) \<Rightarrow> 'k \<Rightarrow> exn + 'v" where
  "lookup m k = (case m k of None \<Rightarrow> Inl KeyError | Some v \<Rightarrow> Inr v)"

text \<open>\<^verbatim>\<open>value >= t\<close> on floats: false when \<open>t\<close> is NaN.\<close>

definition float_ge :: "real \<Rightarrow> real option \<Rightarrow> bool" where
  "float_ge v t = (case t of None \<Rightarrow> False | Some b \<Rightarrow> v \<ge> b)"

text \<open>
  \<^verbatim>\<open>get_nutrient_level\<close>; the dictionary \<open>percentiles\<close> of the enclosing function is
  its first argument. Each \<^verbatim>\<open>p[...]\<close> is looked up when its branch is reached.
\<close>

definition get_nutrient_level ::
  "(nutrient \<Rightarrow> (real \<rightharpoonup> real option)) \<Rightarrow> real \<Rightarrow> nutrient \<Rightarrow> exn + string" where
  "get_nutrient_level pcts v nutrient =
     (let p = pcts nutrient in
      case lookup p 0.95 of Inl e \<Rightarrow> Inl e | Inr t95 \<Rightarrow>
      if float_ge v t95 then Inr ''Top 5%'' else
      case lookup p 0.9 of Inl e \<Rightarrow> Inl e | Inr t90 \<Rightarrow>
      if float_ge v t90 then Inr ''Top 10%'' else
      case lookup p 0.75 of Inl e \<Rightarrow> Inl e | Inr t75 \<Rightarrow>
      if float_ge v t75 then Inr ''High'' else
      case lookup p 0.5 of Inl e \<Rightarrow> Inl e | Inr t50 \<Rightarrow>
      if float_ge v t50 then Inr ''Above Average'' else
      case lookup p 0.25 of Inl e \<Rightarrow> Inl e | Inr t25 \<Rightarrow>
      if float_ge v t25 then Inr ''Average'' else Inr ''Below Average'')"

text \<open>
  The hover text of one bar: the food's name and, for each nutrient, its value and its
  level. The rendering of the values with \<^verbatim>\<open>:.1f\<close> into one string is left out.
\<close>

record hover =
  hv_name :: string
  hv_protein :: "real \<times> string"
  hv_fat :: "real \<times> string"
  hv_fiber :: "real \<times> string"
  hv_carbs :: "real \<times> string"

definition hover_text ::
  "(nutrient \<Rightarrow> (real \<rightharpoonup> real option)) \<Rightarrow> food_row \<Rightarrow> exn + hover" where
  "hover_text pcts row =
     (case get_nutrient_level pcts (prot_g row) Protein of Inl e \<Rightarrow> Inl e | Inr lp \<Rightarrow>
      case get_nutrient_level pcts (tot_fat_g row) Fat of Inl e \<Rightarrow> Inl e | Inr lf \<Rightarrow>
      case get_nutrient_level pcts (tot_fib_g row) Fiber of Inl e \<Rightarrow> Inl e | Inr lb \<Rightarrow>
      case get_nutrient_level pcts (carb_g row) Carbs of Inl e \<Rightarrow> Inl e | Inr lc \<Rightarrow>
      Inr \<lparr>hv_name = Food_Name row,
           hv_protein = (prot_g row, lp),
           hv_fat = (tot_fat_g row, lf),
           hv_fiber = (tot_fib_g row, lb),
           hv_carbs = (carb_g row, lc)\<rparr>)"

text \<open>The loop that appends a hover text per row stops at the first exception.\<close>

fun hover_texts ::
  "(nutrient \<Rightarrow> (real \<rightharpoonup> real option)) \<Rightarrow> food_row list \<Rightarrow> exn + hover list" where
  "hover_texts pcts [] = Inr []"
| "hover_texts pcts (row # rest) =
     (case hover_text pcts row of
        Inl e \<Rightarrow> Inl e
      | Inr h \<Rightarrow> (case hover_texts pcts rest of Inl e \<Rightarrow> Inl e | Inr hs \<Rightarrow> Inr (h # hs)))"

text \<open>
  The bar trace and the layout attribute that orders the bars on the axis. The title and
  the styling of the figure are left out.
\<close>

record bar_figure =
  bar_y :: "string list"
  bar_x :: "real list"
  bar_orientation :: string
  bar_color :: string
  bar_hovertemplate :: "hover list"
  bar_name :: string
  yaxis_categoryorder :: string

definition create_enhanced_top_performers :: "dataframe \<Rightarrow> nutrient \<Rightarrow> exn + bar_figure" where
  "create_enhanced_top_performers df selected_nutrient =
     (let selected_col = nutrient_map selected_nutrient;
          chart_color = color_map selected_nutrient;
          top_performers = nlargest 15 selected_col (rows df);
          display_names = map (\<lambda>x. top_display_name (Food_Name x)) top_performers
      in case hover_texts (percentiles df) top_performers of
           Inl e \<Rightarrow> Inl e
         | Inr hs \<Rightarrow>
             Inr \<lparr>bar_y = display_names,
                  bar_x = map selected_col top_performers,
                  bar_orientation = ''h'',
                  bar_color = chart_color,
                  bar_hovertemplate = hs,
                  bar_name = nutrient_name selected_nutrient,
                  yaxis_categoryorder = ''total ascending''\<rparr>)"

section \<open>Example data\<close>

text \<open>The two foods of the specification's example.\<close>

definition spinach_lentils :: dataframe where
  "spinach_lentils =
     \<lparr>columns = [''Food Name'', ''prot_g'', ''tot_fat_g'', ''tot_fib_g'', ''carb_g''],
      rows =
        [\<lparr>Food_Name = ''Spinach'', prot_g = 2.9, tot_fat_g = 0.4, tot_fib_g = 2.2, carb_g = 3.6\<rparr>,
         \<lparr>Food_Name = ''Lentils'', prot_g = 9.0, tot_fat_g = 0.4, tot_fib_g = 7.9,
           carb_g = 20.1\<rparr>]\<rparr>"

text \<open>
  A file of three rows: a negative protein value, a second row of the same name, and a
  row with an empty protein cell. Two headers carry stray blanks.
\<close>

definition okra_frame :: raw_frame where
  "okra_frame =
     \<lparr>raw_columns = ['' Food Name'', ''prot_g '', ''tot_fat_g'', ''tot_fib_g'', ''carb_g''],
      raw_rows =
        [\<lparr>raw_name = Some ''Okra'', raw_prot = Some (-1), raw_fat = Some 0.2, raw_fib = Some 3.2,
           raw_carb = Some 7, raw_extra = []\<rparr>,
         \<lparr>raw_name = Some ''Okra'', raw_prot = Some 2, raw_fat = Some 0.2, raw_fib = Some 3.2,
           raw_carb = Some 7, raw_extra = []\<rparr>,
         \<lparr>raw_name = Some ''Peas'', raw_prot = None, raw_fat = Some 0.4, raw_fib = Some 5,
           raw_carb = Some 14, raw_extra = []\<rparr>]\<rparr>"

definition okra_loaded :: dataframe where
  "okra_loaded =
     \<lparr>columns = [''Food Name'', ''prot_g'', ''tot_fat_g'', ''tot_fib_g'', ''carb_g''],
      rows =
        [\<lparr>Food_Name = ''Okra'', prot_g = -1, tot_fat_g = 0.2, tot_fib_g = 3.2, carb_g = 7\<rparr>,
         \<lparr>Food_Name = ''Okra'', prot_g = 2, tot_fat_g = 0.2, tot_fib_g = 3.2, carb_g = 7\<rparr>]\<rparr>"

text \<open>Sixteen foods, one more than the chart shows; they differ in protein only.\<close>

definition sixteen_foods :: dataframe where
  "sixteen_foods =
     \<lparr>columns = [''Food Name'', ''prot_g'', ''tot_fat_g'', ''tot_fib_g'', ''carb_g''],
      rows =
        [\<lparr>Food_Name = ''Amaranth'', prot_g = 4.0, tot_fat_g = 0.5, tot_fib_g = 2, carb_g = 5\<rparr>,
         \<lparr>Food_Name = ''Bathua'', prot_g = 3.7, tot_fat_g = 0.5, tot_fib_g = 2, carb_g = 5\<rparr>,
         \<lparr>Food_Name = ''Cabbage'', prot_g = 1.4, tot_fat_g = 0.5, tot_fib_g = 2, carb_g = 5\<rparr>,
         \<lparr>Food_Name = ''Drumstick'', prot_g = 6.4, tot_fat_g = 0.5, tot_fib_g = 2, carb_g = 5\<rparr>,
         \<lparr>Food_Name = ''Fenugreek'', prot_g = 3.7, tot_fat_g = 0.5, tot_fib_g = 2, carb_g = 5\<rparr>,
         \<lparr>Food_Name = ''Mint'', prot_g = 4.7, tot_fat_g = 0.5, tot_fib_g = 2, carb_g = 5\<rparr>,
         \<lparr>Food_Name = ''Mustard'', prot_g = 4.0, tot_fat_g = 0.5, tot_fib_g = 2, carb_g = 5\<rparr>,
         \<lparr>Food_Name = ''Radish'', prot_g = 0.7, tot_fat_g = 0.5, tot_fib_g = 2, carb_g = 5\<rparr>,
         \<lparr>Food_Name = ''Spinach'', prot_g = 2.1, tot_fat_g = 0.5, tot_fib_g = 2, carb_g = 5\<rparr>,
         \<lparr>Food_Name = ''Beans'', prot_g = 3.0, tot_fat_g = 0.5, tot_fib_g = 2, carb_g = 5\<rparr>,
         \<lparr>Food_Name = ''Brinjal'', prot_g = 1.5, tot_fat_g = 0.5, tot_fib_g = 2, carb_g = 5\<rparr>,
         \<lparr>Food_Name = ''Okra'', prot_g = 2.1, tot_fat_g = 0.5, tot_fib_g = 2, carb_g = 5\<rparr>,
         \<lparr>Food_Name = ''Peas'', prot_g = 7.3, tot_fat_g = 0.5, tot_fib_g = 2, carb_g = 5\<rparr>,
         \<lparr>Food_Name = ''Pumpkin'', prot_g = 0.8, tot_fat_g = 0.5, tot_fib_g = 2, carb_g = 5\<rparr>,
         \<lparr>Food_Name = ''Tomato'', prot_g = 0.9, tot_fat_g = 0.5, tot_fib_g = 2, carb_g = 5\<rparr>,
         \<lparr>Food_Name = ''Carrot'', prot_g = 1.0, tot_fat_g = 0.5, tot_fib_g = 2, carb_g = 5\<rparr>]\<rparr>"

section \<open>Percentile buckets\<close>

lemma percentiles_keys:
  "percentiles df n 0.95 = Some (quantile (map (nutrient_map n) (rows df)) 0.95)"
  "percentiles df n 0.9 = Some (quantile (map (nutrient_map n) (rows df)) 0.9)"
  "percentiles df n 0.75 = Some (quantile (map (nutrient_map n) (rows df)) 0.75)"
  "percentiles df n 0.5 = Some (quantile (map (nutrient_map n) (rows df)) 0.5)"
  "percentiles df n 0.25 = Some (quantile (map (nutrient_map n) (rows df)) 0.25)"
  by (simp_all add: percentiles_def)

lemma get_nutrient_level_returns:
  "get_nutrient_level (percentiles df) v n =
     Inr (if float_ge v (quantile (map (nutrient_map n) (rows df)) 0.95) then ''Top 5%''
          else if float_ge v (quantile (map (nutrient_map n) (rows df)) 0.9) then ''Top 10%''
          else if float_ge v (quantile (map (nutrient_map n) (rows df)) 0.75) then ''High''
          else if float_ge v (quantile (map (nutrient_map n) (rows df)) 0.5) then ''Above Average''
          else if float_ge v (quantile (map (nutrient_map n) (rows df)) 0.25) then ''Average''
          else ''Below Average'')"
  unfolding get_nutrient_level_def Let_def lookup_def percentiles_keys option.case sum.case
  by (simp only: if_distrib [of Inr])

lemma get_nutrient_level_total:
  "\<exists>l. get_nutrient_level (percentiles df) v n = Inr l"
  by (simp only: get_nutrient_level_returns) blast

text \<open>
  C1. For every dataset, nutrient and value \<open>v\<close>, the classifier returns the first bucket
  of the ordered list whose threshold \<open>v\<close> reaches: the 95th percentile gives
  \<^verbatim>\<open>Top 5%\<close>, the 90th \<^verbatim>\<open>Top 10%\<close>, the 75th \<^verbatim>\<open>High\<close>, the 50th
  \<^verbatim>\<open>Above Average\<close>, the 25th \<^verbatim>\<open>Average\<close>, and \<^verbatim>\<open>Below Average\<close> otherwise. The
  comparisons are inclusive: a value equal to the 95th percentile is \<^verbatim>\<open>Top 5%\<close>.
\<close>

theorem get_nutrient_level_first_match:
  "get_nutrient_level (percentiles df) v n =
     Inr (if float_ge v (quantile (map (nutrient_map n) (rows df)) 0.95) then ''Top 5%''
          else if float_ge v (quantile (map (nutrient_map n) (rows df)) 0.9) then ''Top 10%''
          else if float_ge v (quantile (map (nutrient_map n) (rows df)) 0.75) then ''High''
          else if float_ge v (quantile (map (nutrient_map n) (rows df)) 0.5) then ''Above Average''
          else if float_ge v (quantile (map (nutrient_map n) (rows df)) 0.25) then ''Average''
          else ''Below Average'')
   \<and> (quantile (map (nutrient_map n) (rows df)) 0.95 = Some p95 \<longrightarrow>
        get_nutrient_level (percentiles df) p95 n = Inr ''Top 5%'')"
proof -
  have "quantile (map (nutrient_map n) (rows df)) 0.95 = Some p95 \<Longrightarrow>
        get_nutrient_level (percentiles df) p95 n = Inr ''Top 5%''"
    by (simp only: get_nutrient_level_returns float_ge_def option.case order_refl if_True)
  then show ?thesis
    using get_nutrient_level_returns [of df v n] by blast
qed

lemma quantile_spinach_lentils:
  "quantile (map (nutrient_map Protein) (rows spinach_lentils)) 0.95 = Some 8.695"
  "quantile (map (nutrient_map Protein) (rows spinach_lentils)) 0.9 = Some 8.39"
  by (simp_all add: spinach_lentils_def quantile_def)

theorem get_nutrient_level_first_match_witness:
  "quantile (map (nutrient_map Protein) (rows spinach_lentils)) 0.95 = Some 8.695 \<and>
   get_nutrient_level (percentiles spinach_lentils) 8.695 Protein = Inr ''Top 5%'' \<and>
   get_nutrient_level (percentiles spinach_lentils) 8.5 Protein = Inr ''Top 10%''"
proof -
  have a: "get_nutrient_level (percentiles spinach_lentils) 8.695 Protein = Inr ''Top 5%''"
    using get_nutrient_level_first_match [of spinach_lentils "8.695" Protein "8.695"]
      quantile_spinach_lentils(1) by blast
  have b: "get_nutrient_level (percentiles spinach_lentils) 8.5 Protein = Inr ''Top 10%''"
    using get_nutrient_level_first_match [of spinach_lentils "8.5" Protein "8.695"]
      quantile_spinach_lentils
    by (simp add: float_ge_def)
  show ?thesis using a b quantile_spinach_lentils(1) by blast
qed

section \<open>Top performers: what the builder returns\<close>

lemma hover_text_total: "\<exists>h. hover_text (percentiles df) x = Inr h"
proof -
  obtain lp where lp: "get_nutrient_level (percentiles df) (prot_g x) Protein = Inr lp"
    using get_nutrient_level_total by blast
  obtain lf where lf: "get_nutrient_level (percentiles df) (tot_fat_g x) Fat = Inr lf"
    using get_nutrient_level_total by blast
  obtain lb where lb: "get_nutrient_level (percentiles df) (tot_fib_g x) Fiber = Inr lb"
    using get_nutrient_level_total by blast
  obtain lc where lc: "get_nutrient_level (percentiles df) (carb_g x) Carbs = Inr lc"
    using get_nutrient_level_total by blast
  show ?thesis
    unfolding hover_text_def by (simp only: lp lf lb lc sum.case) blast
qed

lemma hover_texts_returns:
  "\<exists>hs. hover_texts (percentiles df) xs = Inr hs \<and> length hs = length xs"
proof (induction xs)
  case Nil
  show ?case by simp
next
  case (Cons x xs)
  obtain h where h: "hover_text (percentiles df) x = Inr h"
    using hover_text_total by blast
  from Cons obtain hs where hs: "hover_texts (percentiles df) xs = Inr hs" "length hs = length xs"
    by blast
  show ?case by (simp add: h hs)
qed

lemma create_enhanced_top_performers_returns:
  "\<exists>hs. length hs = length (nlargest 15 (nutrient_map n) (rows df)) \<and>
     create_enhanced_top_performers df n =
       Inr \<lparr>bar_y = map (\<lambda>x. top_display_name (Food_Name x))
                      (nlargest 15 (nutrient_map n) (rows df)),
            bar_x = map (nutrient_map n) (nlargest 15 (nutrient_map n) (rows df)),
            bar_orientation = ''h'',
            bar_color = color_map n,
            bar_hovertemplate = hs,
            bar_name = nutrient_name n,
            yaxis_categoryorder = ''total ascending''\<rparr>"
proof -
  obtain hs where
    hs: "hover_texts (percentiles df) (nlargest 15 (nutrient_map n) (rows df)) = Inr hs"
      "length hs = length (nlargest 15 (nutrient_map n) (rows df))"
    using hover_texts_returns by blast
  show ?thesis
    unfolding create_enhanced_top_performers_def Let_def by (simp add: hs)
qed

lemma top_performers_names:
  "map_sum id bar_y (create_enhanced_top_performers df n) =
     Inr (map (\<lambda>x. top_display_name (Food_Name x)) (nlargest 15 (nutrient_map n) (rows df)))"
  using create_enhanced_top_performers_returns [of n df] by auto

lemma top_performers_values:
  "map_sum id bar_x (create_enhanced_top_performers df n) =
     Inr (map (nutrient_map n) (nlargest 15 (nutrient_map n) (rows df)))"
  using create_enhanced_top_performers_returns [of n df] by auto

lemma top_performers_order:
  "map_sum id yaxis_categoryorder (create_enhanced_top_performers df n) = Inr ''total ascending''"
  using create_enhanced_top_performers_returns [of n df] by auto

section \<open>Display names of the top performers\<close>

text \<open>
  C5, as the specification states it, fails on its own example: the name
  \<^verbatim>\<open>Bottle Gourd Without Skin Raw\<close> is not displayed as
  \<^verbatim>\<open>Bottle Gourd Without Skin R...\<close>, whose part before the ellipsis has 27 characters.
\<close>

theorem bottle_gourd_display_name:
  "top_display_name ''Bottle Gourd Without Skin Raw'' \<noteq> ''Bottle Gourd Without Skin R...''"
  by (simp add: top_display_name_def)

text \<open>
  C5, amended. The labels of the top performers chart are the display names of its
  foods; a name of at most 25 characters is displayed unchanged, and a longer one as its
  first 25 characters followed by three dots, 28 characters in all. The 29-character name
  \<^verbatim>\<open>Bottle Gourd Without Skin Raw\<close> is displayed as \<^verbatim>\<open>Bottle Gourd Without Skin...\<close>.
\<close>

theorem top_display_name_truncates:
  "map_sum id bar_y (create_enhanced_top_performers df n) =
     Inr (map (\<lambda>x. top_display_name (Food_Name x)) (nlargest 15 (nutrient_map n) (rows df))) \<and>
   (length x \<le> 25 \<longrightarrow> top_display_name x = x) \<and>
   (length x > 25 \<longrightarrow>
      top_display_name x = take 25 x @ ''...'' \<and> length (top_display_name x) = 28) \<and>
   top_display_name ''Bottle Gourd Without Skin Raw'' = ''Bottle Gourd Without Skin...''"
  by (simp add: top_performers_names top_display_name_def)

theorem top_display_name_truncates_witness:
  "length ''Spinach'' \<le> 25 \<and> top_display_name ''Spinach'' = ''Spinach'' \<and>
   length ''Bottle Gourd Without Skin Raw'' > 25 \<and>
   top_display_name ''Bottle Gourd Without Skin Raw'' =
     take 25 ''Bottle Gourd Without Skin Raw'' @ ''...''"
  using top_display_name_truncates [of spinach_lentils Protein "''Spinach''"]
    top_display_name_truncates [of spinach_lentils Protein "''Bottle Gourd Without Skin Raw''"]
  by simp

section \<open>The scatter overview has one point per record\<close>

text \<open>
  C9. For every dataset the scatter overview has exactly one point per record, in the
  order of the dataset: the point of a record carries its name, protein, fibre and
  carbohydrate values, and each of the four series has the size of the dataset.
\<close>

theorem scatter_one_point_per_record:
  "zip (sc_text (create_scatter_overview df))
     (zip (sc_x (create_scatter_overview df))
        (zip (sc_y (create_scatter_overview df)) (sc_marker_color (create_scatter_overview df)))) =
     map (\<lambda>x. (Food_Name x, prot_g x, tot_fib_g x, carb_g x)) (rows df) \<and>
   length (sc_x (create_scatter_overview df)) = length (rows df) \<and>
   length (sc_y (create_scatter_overview df)) = length (rows df) \<and>
   length (sc_marker_color (create_scatter_overview df)) = length (rows df) \<and>
   length (sc_text (create_scatter_overview df)) = length (rows df)"
  by (simp add: create_scatter_overview_def zip_map_map zip_same_conv_map)

section \<open>The radar chart of a selection outside the dataset\<close>

lemma radar_trace_unknown:
  "food \<notin> Food_Name ` set (rows df) \<Longrightarrow> radar_trace df (i, food) = []"
proof -
  assume "food \<notin> Food_Name ` set (rows df)"
  then have "filter (\<lambda>x. Food_Name x = food) (rows df) = []"
    by (auto simp: filter_empty_conv)
  then show ?thesis by (simp add: radar_trace_def)
qed

lemma radar_traces_unknown:
  "set S \<inter> Food_Name ` set (rows df) = {} \<Longrightarrow>
   concat (map (radar_trace df) (enumerate k S)) = []"
  by (induction S arbitrary: k) (auto simp: radar_trace_unknown)

text \<open>
  C10. For a non-empty selection none of whose names occurs in the dataset, the radar
  builder returns a figure with no polygon and the radial axis maximum 50.
\<close>

theorem radar_unknown_selection:
  "S \<noteq> [] \<Longrightarrow> set S \<inter> Food_Name ` set (rows df) = {} \<Longrightarrow>
   polar_traces (create_radar_chart S df) = [] \<and>
   radial_range (create_radar_chart S df) = Some (0, 50)"
proof -
  assume ne: "S \<noteq> []" and un: "set S \<inter> Food_Name ` set (rows df) = {}"
  have "filter (\<lambda>x. Food_Name x \<in> set S) (rows df) = []"
    using un by (auto simp: filter_empty_conv)
  then show ?thesis
    using ne radar_traces_unknown [OF un, of 0]
    by (simp add: create_radar_chart_def Let_def del: concat_eq_Nil_conv)
qed

theorem radar_unknown_selection_witness:
  "[''Quinoa''] \<noteq> [] \<and> set [''Quinoa''] \<inter> Food_Name ` set (rows spinach_lentils) = {} \<and>
   polar_traces (create_radar_chart [''Quinoa''] spinach_lentils) = [] \<and>
   radial_range (create_radar_chart [''Quinoa''] spinach_lentils) = Some (0, 50)"
proof -
  have h: "set [''Quinoa''] \<inter> Food_Name ` set (rows spinach_lentils) = {}"
    by (simp add: spinach_lentils_def)
  show ?thesis using h radar_unknown_selection [OF _ h] by simp
qed

section \<open>The top performers are the largest values, largest first\<close>

lemma length_nlargest: "length (nlargest k c xs) = min k (length xs)"
  by (simp add: nlargest_def min.commute)

lemma mset_nlargest: "mset (nlargest k c xs) \<subseteq># mset xs"
proof -
  have "mset (take k (sort_key (\<lambda>x. - c x) xs)) + mset (drop k (sort_key (\<lambda>x. - c x) xs)) =
        mset (sort_key (\<lambda>x. - c x) xs)"
    by (simp flip: mset_append)
  then have "mset (take k (sort_key (\<lambda>x. - c x) xs)) \<subseteq># mset (sort_key (\<lambda>x. - c x) xs)"
    by (metis mset_subset_eq_add_left)
  then show ?thesis by (simp add: nlargest_def)
qed

lemma nlargest_descending: "sorted (rev (map c (nlargest k c xs)))"
proof -
  have "sorted (map (\<lambda>x. - c x) (sort_key (\<lambda>x. - c x) xs))"
    by (rule sorted_sort_key)
  then have "sorted (take k (map (\<lambda>x. - c x) (sort_key (\<lambda>x. - c x) xs)))"
    by (rule sorted_wrt_take)
  then have "sorted_wrt (\<lambda>x y. c y \<le> c x) (nlargest k c xs)"
    by (simp add: nlargest_def take_map sorted_map)
  then show ?thesis
    by (simp add: sorted_wrt_map sorted_wrt_rev flip: rev_map)
qed

lemma nlargest_largest:
  assumes "x \<in> set xs" "x \<notin> set (nlargest k c xs)" "y \<in> set (nlargest k c xs)"
  shows "c x \<le> c y"
proof -
  let ?s = "sort_key (\<lambda>x. - c x) xs"
  have "sorted (map (\<lambda>x. - c x) (take k ?s @ drop k ?s))"
    using sorted_sort_key [of "\<lambda>x. - c x" xs] by simp
  then have le: "\<forall>a \<in> set (take k ?s). \<forall>b \<in> set (drop k ?s). - c a \<le> - c b"
    unfolding map_append sorted_append by auto
  have "x \<in> set (take k ?s @ drop k ?s)" using assms(1) by simp
  then have "x \<in> set (drop k ?s)" using assms(2) unfolding nlargest_def set_append by blast
  with le assms(3) show ?thesis by (auto simp: nlargest_def)
qed

text \<open>
  C2, as the specification states it, fails: the series the builder returns is not
  sorted ascending. For the two foods of the example the bar values are 9 and then 2.9.
\<close>

theorem top_performers_not_ascending:
  "map_sum id bar_x (create_enhanced_top_performers spinach_lentils Protein) = Inr [9, 2.9] \<and>
   \<not> sorted [9, 2.9 :: real]"
proof -
  have "nlargest 15 prot_g (rows spinach_lentils) = rev (rows spinach_lentils)"
    by (simp add: nlargest_def spinach_lentils_def)
  then have "map_sum id bar_x (create_enhanced_top_performers spinach_lentils Protein) =
      Inr [9, 2.9]"
    by (simp add: top_performers_values spinach_lentils_def)
  moreover have "\<not> sorted [9, 2.9 :: real]"
    by (simp only: sorted2) simp
  ultimately show ?thesis by blast
qed

text \<open>
  C2, amended. For every dataset and every nutrient the builder returns a figure whose
  bar series holds 15 records, or all of them when the dataset has fewer. They are
  records of the dataset with the largest values of the selected nutrient: every record
  left out has a value no larger than each one shown. The series is in descending order
  of that value, and the figure asks the renderer for the category order
  \<^verbatim>\<open>total ascending\<close>.
\<close>

theorem top_performers_largest_descending:
  "map_sum id bar_x (create_enhanced_top_performers df n) =
     Inr (map (nutrient_map n) (nlargest 15 (nutrient_map n) (rows df))) \<and>
   map_sum id bar_y (create_enhanced_top_performers df n) =
     Inr (map (\<lambda>x. top_display_name (Food_Name x)) (nlargest 15 (nutrient_map n) (rows df))) \<and>
   map_sum id yaxis_categoryorder (create_enhanced_top_performers df n) =
     Inr ''total ascending'' \<and>
   length (nlargest 15 (nutrient_map n) (rows df)) = min 15 (length (rows df)) \<and>
   mset (nlargest 15 (nutrient_map n) (rows df)) \<subseteq># mset (rows df) \<and>
   (\<forall>x \<in> set (rows df). x \<in> set (nlargest 15 (nutrient_map n) (rows df)) \<or>
      (\<forall>y \<in> set (nlargest 15 (nutrient_map n) (rows df)).
         nutrient_map n x \<le> nutrient_map n y)) \<and>
   sorted (rev (map (nutrient_map n) (nlargest 15 (nutrient_map n) (rows df))))"
proof (intro conjI)
  show "\<forall>x \<in> set (rows df). x \<in> set (nlargest 15 (nutrient_map n) (rows df)) \<or>
      (\<forall>y \<in> set (nlargest 15 (nutrient_map n) (rows df)).
         nutrient_map n x \<le> nutrient_map n y)"
    using nlargest_largest by blast
qed (simp_all only: top_performers_values top_performers_names top_performers_order
       length_nlargest mset_nlargest nlargest_descending)

lemma nlargest_sixteen_foods:
  "map Food_Name (nlargest 15 prot_g (rows sixteen_foods)) =
     [''Peas'', ''Drumstick'', ''Mint'', ''Amaranth'', ''Mustard'', ''Bathua'', ''Fenugreek'',
      ''Beans'', ''Spinach'', ''Okra'', ''Brinjal'', ''Cabbage'', ''Carrot'', ''Tomato'',
      ''Pumpkin'']"
  "map prot_g (nlargest 15 prot_g (rows sixteen_foods)) =
     [7.3, 6.4, 4.7, 4, 4, 3.7, 3.7, 3, 2.1, 2.1, 1.5, 1.4, 1, 0.9, 0.8]"
  by (simp_all add: nlargest_def sixteen_foods_def)

theorem top_performers_largest_descending_witness:
  "map_sum id bar_x (create_enhanced_top_performers sixteen_foods Protein) =
     Inr [7.3, 6.4, 4.7, 4, 4, 3.7, 3.7, 3, 2.1, 2.1, 1.5, 1.4, 1, 0.9, 0.8] \<and>
   length (nlargest 15 prot_g (rows sixteen_foods)) = 15 \<and>
   \<lparr>Food_Name = ''Radish'', prot_g = 0.7, tot_fat_g = 0.5, tot_fib_g = 2, carb_g = 5\<rparr>
     \<in> set (rows sixteen_foods) \<and>
   list_all (\<lambda>y. 0.7 \<le> prot_g y) (nlargest 15 prot_g (rows sixteen_foods))"
proof -
  let ?radish =
    "\<lparr>Food_Name = ''Radish'', prot_g = 0.7, tot_fat_g = 0.5, tot_fib_g = 2, carb_g = 5\<rparr>"
  note t = top_performers_largest_descending [of sixteen_foods Protein]
  have mem: "?radish \<in> set (rows sixteen_foods)"
    by (simp add: sixteen_foods_def)
  have "Food_Name ?radish \<notin> set (map Food_Name (nlargest 15 prot_g (rows sixteen_foods)))"
    unfolding nlargest_sixteen_foods by simp
  then have out: "?radish \<notin> set (nlargest 15 prot_g (rows sixteen_foods))"
    by force
  from t mem out
  have "\<forall>y \<in> set (nlargest 15 prot_g (rows sixteen_foods)). prot_g ?radish \<le> prot_g y"
    by (metis nutrient_map.simps(1))
  then have le: "list_all (\<lambda>y. 0.7 \<le> prot_g y) (nlargest 15 prot_g (rows sixteen_foods))"
    by (simp add: list_all_iff)
  from t have x: "map_sum id bar_x (create_enhanced_top_performers sixteen_foods Protein) =
     Inr [7.3, 6.4, 4.7, 4, 4, 3.7, 3.7, 3, 2.1, 2.1, 1.5, 1.4, 1, 0.9, 0.8]"
    by (simp only: nutrient_map.simps nlargest_sixteen_foods)
  from t have len: "length (nlargest 15 prot_g (rows sixteen_foods)) = 15"
    by (simp add: sixteen_foods_def)
  show ?thesis using x len mem le by blast
qed

section \<open>The radar chart of a selection from the dataset\<close>

lemma filter_Cons_find:
  "filter P xs = y # ys \<Longrightarrow> find P xs = Some y"
  by (induction xs) (auto split: if_splits)

lemma find_Some_radar_trace:
  assumes "find (\<lambda>x. Food_Name x = food) (rows df) = Some x"
  shows "radar_trace df (i, food) =
     [\<lparr>sp_r = [prot_g x, tot_fat_g x, tot_fib_g x, carb_g x],
       sp_theta = labels,
       sp_fill = ''toself'',
       sp_name = radar_display_name food,
       sp_line_color = colors ! (i mod length colors),
       sp_fillcolor = colors ! (i mod length colors)\<rparr>]"
proof (cases "filter (\<lambda>x. Food_Name x = food) (rows df)")
  case Nil
  then have "find (\<lambda>x. Food_Name x = food) (rows df) = None"
    by (simp add: find_None_iff filter_empty_conv)
  with assms show ?thesis by simp
next
  case (Cons y ys)
  then have "y = x" using filter_Cons_find [OF Cons] assms by simp
  with Cons show ?thesis by (simp add: radar_trace_def nutrients_def)
qed

lemma known_find:
  "food \<in> Food_Name ` set (rows df) \<Longrightarrow>
   \<exists>x. find (\<lambda>x. Food_Name x = food) (rows df) = Some x"
  by (cases "find (\<lambda>x. Food_Name x = food) (rows df)") (auto simp: find_None_iff)

lemma radar_traces_known:
  "set S \<subseteq> Food_Name ` set (rows df) \<Longrightarrow>
   length (concat (map (radar_trace df) (enumerate k S))) = length S \<and>
   (\<forall>i < length S. \<exists>x. find (\<lambda>x. Food_Name x = S ! i) (rows df) = Some x \<and>
      sp_r (concat (map (radar_trace df) (enumerate k S)) ! i) =
        [prot_g x, tot_fat_g x, tot_fib_g x, carb_g x] \<and>
      sp_theta (concat (map (radar_trace df) (enumerate k S)) ! i) = labels)"
proof (induction S arbitrary: k)
  case Nil
  show ?case by simp
next
  case (Cons food S)
  from Cons.prems obtain x where x: "find (\<lambda>x. Food_Name x = food) (rows df) = Some x"
    using known_find [of food df] by auto
  from Cons.prems have sub: "set S \<subseteq> Food_Name ` set (rows df)" by simp
  note ih = Cons.IH [OF sub, of "Suc k"]
  show ?case
  proof (intro conjI allI impI)
    show "length (concat (map (radar_trace df) (enumerate k (food # S)))) = length (food # S)"
      using ih by (simp add: find_Some_radar_trace [OF x])
  next
    fix i assume i: "i < length (food # S)"
    show "\<exists>x. find (\<lambda>x. Food_Name x = (food # S) ! i) (rows df) = Some x \<and>
      sp_r (concat (map (radar_trace df) (enumerate k (food # S))) ! i) =
        [prot_g x, tot_fat_g x, tot_fib_g x, carb_g x] \<and>
      sp_theta (concat (map (radar_trace df) (enumerate k (food # S))) ! i) = labels"
    proof (cases i)
      case 0
      then show ?thesis by (simp add: find_Some_radar_trace [OF x] x)
    next
      case (Suc j)
      with i have "j < length S" by simp
      with ih Suc show ?thesis by (simp add: find_Some_radar_trace [OF x])
    qed
  qed
qed

text \<open>
  C3. For every selection \<open>S\<close> whose names all occur in the dataset (of any size, so also
  of 0 to 5 names), the radar builder returns exactly \<open>|S|\<close> polygons, the \<open>i\<close>-th being
  that of the \<open>i\<close>-th selected name: its four values are the protein, fat, fibre and
  carbohydrate values, in this order, of the first record of that name. The empty
  selection gives the empty figure, without polygons.
\<close>

theorem radar_one_polygon_per_selected:
  "set S \<subseteq> Food_Name ` set (rows df) \<Longrightarrow>
   length (polar_traces (create_radar_chart S df)) = length S \<and>
   (\<forall>i < length S. \<exists>x. find (\<lambda>x. Food_Name x = S ! i) (rows df) = Some x \<and>
      sp_r (polar_traces (create_radar_chart S df) ! i) =
        [prot_g x, tot_fat_g x, tot_fib_g x, carb_g x] \<and>
      sp_theta (polar_traces (create_radar_chart S df) ! i) =
        [''Protein (g)'', ''Fat (g)'', ''Fiber (g)'', ''Carbs (g)'']) \<and>
   create_radar_chart [] df = \<lparr>polar_traces = [], radial_range = None\<rparr>"
proof -
  assume sub: "set S \<subseteq> Food_Name ` set (rows df)"
  have e: "create_radar_chart [] df = \<lparr>polar_traces = [], radial_range = None\<rparr>"
    by (simp add: create_radar_chart_def)
  show ?thesis
  proof (cases "S = []")
    case True
    with e show ?thesis by simp
  next
    case False
    then have "polar_traces (create_radar_chart S df) =
        concat (map (radar_trace df) (enumerate 0 S))"
      by (simp add: create_radar_chart_def Let_def)
    with radar_traces_known [OF sub, of 0] e show ?thesis
      by (simp add: labels_def)
  qed
qed

theorem radar_one_polygon_per_selected_witness:
  "set [''Lentils'', ''Spinach''] \<subseteq> Food_Name ` set (rows spinach_lentils) \<and>
   length (polar_traces (create_radar_chart [''Lentils'', ''Spinach''] spinach_lentils)) = 2 \<and>
   sp_r (polar_traces (create_radar_chart [''Lentils'', ''Spinach''] spinach_lentils) ! 0) =
     [9, 0.4, 7.9, 20.1] \<and>
   sp_r (polar_traces (create_radar_chart [''Lentils'', ''Spinach''] spinach_lentils) ! 1) =
     [2.9, 0.4, 2.2, 3.6]"
proof -
  have sub: "set [''Lentils'', ''Spinach''] \<subseteq> Food_Name ` set (rows spinach_lentils)"
    by (simp add: spinach_lentils_def)
  have f0: "find (\<lambda>x. Food_Name x = [''Lentils'', ''Spinach''] ! 0) (rows spinach_lentils) =
      Some \<lparr>Food_Name = ''Lentils'', prot_g = 9.0, tot_fat_g = 0.4, tot_fib_g = 7.9,
             carb_g = 20.1\<rparr>"
    by (simp add: spinach_lentils_def)
  have f1: "find (\<lambda>x. Food_Name x = [''Lentils'', ''Spinach''] ! 1) (rows spinach_lentils) =
      Some \<lparr>Food_Name = ''Spinach'', prot_g = 2.9, tot_fat_g = 0.4, tot_fib_g = 2.2,
             carb_g = 3.6\<rparr>"
    by (simp add: spinach_lentils_def)
  note t = radar_one_polygon_per_selected [OF sub]
  from t have len:
    "length (polar_traces (create_radar_chart [''Lentils'', ''Spinach''] spinach_lentils)) = 2"
    by simp
  from t have a:
    "\<exists>x. find (\<lambda>x. Food_Name x = [''Lentils'', ''Spinach''] ! 0) (rows spinach_lentils) = Some x \<and>
      sp_r (polar_traces (create_radar_chart [''Lentils'', ''Spinach''] spinach_lentils) ! 0) =
        [prot_g x, tot_fat_g x, tot_fib_g x, carb_g x]"
    by force
  from t have b:
    "\<exists>x. find (\<lambda>x. Food_Name x = [''Lentils'', ''Spinach''] ! 1) (rows spinach_lentils) = Some x \<and>
      sp_r (polar_traces (create_radar_chart [''Lentils'', ''Spinach''] spinach_lentils) ! 1) =
        [prot_g x, tot_fat_g x, tot_fib_g x, carb_g x]"
    by force
  from a have r0:
    "sp_r (polar_traces (create_radar_chart [''Lentils'', ''Spinach''] spinach_lentils) ! 0) =
     [9, 0.4, 7.9, 20.1]"
    unfolding f0 by auto
  from b have r1:
    "sp_r (polar_traces (create_radar_chart [''Lentils'', ''Spinach''] spinach_lentils) ! 1) =
     [2.9, 0.4, 2.2, 3.6]"
    unfolding f1 by auto
  show ?thesis using sub len r0 r1 by blast
qed

section \<open>The radial axis of the radar chart\<close>

lemma series_max_columns:
  assumes "sel \<noteq> []"
  shows "series_max (map (\<lambda>nutrient. series_max (map nutrient sel)) nutrients) =
         Max (\<Union>x \<in> set sel. {prot_g x, tot_fat_g x, tot_fib_g x, carb_g x})"
proof -
  have ne: "set sel \<noteq> {}" using assms by simp
  have u: "(\<Union>x \<in> set sel. {prot_g x, tot_fat_g x, tot_fib_g x, carb_g x}) =
        prot_g ` set sel \<union> (tot_fat_g ` set sel \<union> (tot_fib_g ` set sel \<union> carb_g ` set sel))"
    by auto
  have "Max (prot_g ` set sel \<union>
             (tot_fat_g ` set sel \<union> (tot_fib_g ` set sel \<union> carb_g ` set sel))) =
        max (Max (prot_g ` set sel)) (max (Max (tot_fat_g ` set sel))
          (max (Max (tot_fib_g ` set sel)) (Max (carb_g ` set sel))))"
    using ne by (simp add: Max_Un)
  moreover have "series_max (map (\<lambda>nutrient. series_max (map nutrient sel)) nutrients) =
        max (Max (prot_g ` set sel)) (max (Max (tot_fat_g ` set sel))
          (max (Max (tot_fib_g ` set sel)) (Max (carb_g ` set sel))))"
    by (simp add: series_max_def nutrients_def)
  ultimately show ?thesis by (simp only: u)
qed

text \<open>
  C4. For every non-empty selection whose names occur in the dataset, the maximum of the
  radial axis is \<open>max (1.3 * m) 10\<close>, where \<open>m\<close> is the largest of the four nutrient values
  over the records whose name is selected. Hence the maximum is at least 10, and it is
  \<open>1.3 * m\<close> whenever that exceeds 10.
\<close>

theorem radar_axis_maximum:
  "S \<noteq> [] \<Longrightarrow> set S \<subseteq> Food_Name ` set (rows df) \<Longrightarrow>
   m = Max (\<Union>x \<in> set (filter (\<lambda>x. Food_Name x \<in> set S) (rows df)).
              {prot_g x, tot_fat_g x, tot_fib_g x, carb_g x}) \<Longrightarrow>
   radial_range (create_radar_chart S df) = Some (0, max (1.3 * m) 10) \<and>
   (\<forall>lo hi. radial_range (create_radar_chart S df) = Some (lo, hi) \<longrightarrow> 10 \<le> hi) \<and>
   (1.3 * m > 10 \<longrightarrow> radial_range (create_radar_chart S df) = Some (0, 1.3 * m))"
proof -
  assume ne: "S \<noteq> []" and sub: "set S \<subseteq> Food_Name ` set (rows df)"
    and m: "m = Max (\<Union>x \<in> set (filter (\<lambda>x. Food_Name x \<in> set S) (rows df)).
              {prot_g x, tot_fat_g x, tot_fib_g x, carb_g x})"
  from ne obtain food where "food \<in> set S" by (cases S) auto
  with sub obtain x where "x \<in> set (rows df)" "Food_Name x \<in> set S" by auto
  then have sel: "filter (\<lambda>x. Food_Name x \<in> set S) (rows df) \<noteq> []"
    by (auto simp: filter_empty_conv)
  have "radial_range (create_radar_chart S df) = Some (0, max (m * 1.3) 10)"
    using ne sel series_max_columns [OF sel] m
    by (simp add: create_radar_chart_def Let_def)
  then have r: "radial_range (create_radar_chart S df) = Some (0, max (1.3 * m) 10)"
    by (simp add: mult.commute)
  then show ?thesis by auto
qed

theorem radar_axis_maximum_witness:
  "[''Spinach'', ''Lentils''] \<noteq> [] \<and>
   set [''Spinach'', ''Lentils''] \<subseteq> Food_Name ` set (rows spinach_lentils) \<and>
   Max (\<Union>x \<in> set (filter (\<lambda>x. Food_Name x \<in> set [''Spinach'', ''Lentils''])
                       (rows spinach_lentils)).
          {prot_g x, tot_fat_g x, tot_fib_g x, carb_g x}) = 20.1 \<and>
   radial_range (create_radar_chart [''Spinach'', ''Lentils''] spinach_lentils) =
     Some (0, 26.13)"
proof -
  have sub: "set [''Spinach'', ''Lentils''] \<subseteq> Food_Name ` set (rows spinach_lentils)"
    by (simp add: spinach_lentils_def)
  have m: "20.1 = Max (\<Union>x \<in> set (filter (\<lambda>x. Food_Name x \<in> set [''Spinach'', ''Lentils''])
                                   (rows spinach_lentils)).
              {prot_g x, tot_fat_g x, tot_fib_g x, carb_g x})"
    by (simp add: spinach_lentils_def)
  have "radial_range (create_radar_chart [''Spinach'', ''Lentils''] spinach_lentils) =
      Some (0, 26.13)"
    using radar_axis_maximum [OF _ sub m] by simp
  with sub m show ?thesis by simp
qed

section \<open>What the loader keeps\<close>

lemma complete_row_Some:
  "complete_row y = Some x \<longleftrightarrow>
     raw_name y = Some (Food_Name x) \<and> raw_prot y = Some (prot_g x) \<and>
     raw_fat y = Some (tot_fat_g x) \<and> raw_fib y = Some (tot_fib_g x) \<and>
     raw_carb y = Some (carb_g x) \<and> None \<notin> set (raw_extra y)"
  by (cases x) (auto simp: complete_row_def list_all_iff split: option.splits)

lemma load_data_frame:
  "load_data (Inr f) =
     Inr ([], Some \<lparr>columns = map str_strip (raw_columns f), rows = dropna (raw_rows f)\<rparr>)"
  by (simp add: load_data_def)

lemma load_okra_frame: "load_data (Inr okra_frame) = Inr ([], Some okra_loaded)"
  by (simp add: load_data_def okra_frame_def okra_loaded_def dropna_def List.map_filter_simps
      complete_row_def str_strip_def is_space_def)

lemma dropna_sources:
  "x \<in> set (dropna ys) \<Longrightarrow> \<exists>y \<in> set ys. complete_row y = Some x"
  by (auto simp: dropna_def List.map_filter_def)

lemma dropna_kept:
  "y \<in> set ys \<Longrightarrow> complete_row y = Some x \<Longrightarrow> x \<in> set (dropna ys)"
  by (force simp: dropna_def List.map_filter_def)

lemma dropna_filter:
  "map (\<lambda>x. (Some (Food_Name x), Some (prot_g x), Some (tot_fat_g x), Some (tot_fib_g x),
             Some (carb_g x))) (dropna ys) =
   map (\<lambda>y. (raw_name y, raw_prot y, raw_fat y, raw_fib y, raw_carb y))
     (filter (\<lambda>y. raw_name y \<noteq> None \<and> raw_prot y \<noteq> None \<and> raw_fat y \<noteq> None \<and>
                   raw_fib y \<noteq> None \<and> raw_carb y \<noteq> None \<and> None \<notin> set (raw_extra y)) ys)"
proof (induction ys)
  case Nil
  show ?case by (simp add: dropna_def List.map_filter_simps)
next
  case (Cons y ys)
  show ?case
  proof (cases "complete_row y")
    case None
    then have "\<not> (raw_name y \<noteq> None \<and> raw_prot y \<noteq> None \<and> raw_fat y \<noteq> None \<and>
                   raw_fib y \<noteq> None \<and> raw_carb y \<noteq> None \<and> None \<notin> set (raw_extra y))"
      by (auto simp: complete_row_def list_all_iff split: option.splits if_splits)
    with None Cons show ?thesis
      by (simp add: dropna_def List.map_filter_simps)
  next
    case (Some x)
    then have "raw_name y = Some (Food_Name x) \<and> raw_prot y = Some (prot_g x) \<and>
     raw_fat y = Some (tot_fat_g x) \<and> raw_fib y = Some (tot_fib_g x) \<and>
     raw_carb y = Some (carb_g x) \<and> None \<notin> set (raw_extra y)"
      by (simp add: complete_row_Some)
    with Some Cons show ?thesis
      by (simp add: dropna_def List.map_filter_simps)
  qed
qed

lemma dropna_names:
  "map (\<lambda>x. Some (Food_Name x)) (dropna ys) =
   map raw_name
     (filter (\<lambda>y. raw_name y \<noteq> None \<and> raw_prot y \<noteq> None \<and> raw_fat y \<noteq> None \<and>
                   raw_fib y \<noteq> None \<and> raw_carb y \<noteq> None \<and> None \<notin> set (raw_extra y)) ys)"
proof -
  have "map fst (map (\<lambda>x. (Some (Food_Name x), Some (prot_g x), Some (tot_fat_g x),
                            Some (tot_fib_g x), Some (carb_g x))) (dropna ys)) =
        map fst (map (\<lambda>y. (raw_name y, raw_prot y, raw_fat y, raw_fib y, raw_carb y))
          (filter (\<lambda>y. raw_name y \<noteq> None \<and> raw_prot y \<noteq> None \<and> raw_fat y \<noteq> None \<and>
                   raw_fib y \<noteq> None \<and> raw_carb y \<noteq> None \<and> None \<notin> set (raw_extra y)) ys))"
    by (simp only: dropna_filter)
  then show ?thesis by (simp add: comp_def)
qed

text \<open>
  C6, as the specification states it, fails: dropping the rows with a missing value does
  not make the values non-negative. A file with a protein value of -1 loads into a
  dataset whose first record has that value.
\<close>

theorem loader_keeps_negative_value:
  "load_data (Inr okra_frame) = Inr ([], Some okra_loaded) \<and> prot_g (rows okra_loaded ! 0) < 0"
  by (simp add: load_okra_frame) (simp add: okra_loaded_def)

text \<open>
  C6, amended. For every tabular input the loader returns a dataset. Every record of it
  has a value present in all four nutrient fields (and a name), the values of a row of
  the input. Conversely every row of the input without a missing value is a record of
  the dataset with its values unchanged: the sign of a value is not checked, so a
  negative value in such a row is kept.
\<close>

theorem loader_rows_have_all_values:
  "\<exists>df. load_data (Inr f) = Inr ([], Some df) \<and>
     (\<forall>x \<in> set (rows df). \<exists>y \<in> set (raw_rows f).
        raw_name y = Some (Food_Name x) \<and> raw_prot y = Some (prot_g x) \<and>
        raw_fat y = Some (tot_fat_g x) \<and> raw_fib y = Some (tot_fib_g x) \<and>
        raw_carb y = Some (carb_g x)) \<and>
     (\<forall>y \<in> set (raw_rows f). \<forall>n p a b c.
        raw_name y = Some n \<and> raw_prot y = Some p \<and> raw_fat y = Some a \<and>
        raw_fib y = Some b \<and> raw_carb y = Some c \<and> None \<notin> set (raw_extra y) \<longrightarrow>
        \<lparr>Food_Name = n, prot_g = p, tot_fat_g = a, tot_fib_g = b, carb_g = c\<rparr> \<in> set (rows df))"
proof -
  have sources: "\<forall>x \<in> set (dropna (raw_rows f)). \<exists>y \<in> set (raw_rows f).
        raw_name y = Some (Food_Name x) \<and> raw_prot y = Some (prot_g x) \<and>
        raw_fat y = Some (tot_fat_g x) \<and> raw_fib y = Some (tot_fib_g x) \<and>
        raw_carb y = Some (carb_g x)"
    by (fastforce simp: complete_row_Some dest: dropna_sources)
  have kept: "\<lparr>Food_Name = n, prot_g = p, tot_fat_g = a, tot_fib_g = b, carb_g = c\<rparr>
        \<in> set (dropna (raw_rows f))"
    if "y \<in> set (raw_rows f)" "raw_name y = Some n" "raw_prot y = Some p" "raw_fat y = Some a"
      "raw_fib y = Some b" "raw_carb y = Some c" "None \<notin> set (raw_extra y)" for y n p a b c
  proof -
    have "complete_row y =
        Some \<lparr>Food_Name = n, prot_g = p, tot_fat_g = a, tot_fib_g = b, carb_g = c\<rparr>"
      using that by (simp add: complete_row_Some)
    with that(1) show ?thesis by (rule dropna_kept)
  qed
  show ?thesis
    unfolding load_data_frame using sources kept by auto
qed

theorem loader_rows_have_all_values_witness:
  "load_data (Inr okra_frame) = Inr ([], Some okra_loaded) \<and>
   \<lparr>Food_Name = ''Okra'', prot_g = -1, tot_fat_g = 0.2, tot_fib_g = 3.2, carb_g = 7\<rparr>
     \<in> set (rows okra_loaded) \<and>
   prot_g \<lparr>Food_Name = ''Okra'', prot_g = -1, tot_fat_g = 0.2, tot_fib_g = 3.2, carb_g = 7\<rparr> < 0"
proof -
  let ?y = "\<lparr>raw_name = Some ''Okra'', raw_prot = Some (-1), raw_fat = Some 0.2,
             raw_fib = Some 3.2, raw_carb = Some 7, raw_extra = []\<rparr>"
  from loader_rows_have_all_values [of okra_frame]
  obtain df where df: "load_data (Inr okra_frame) = Inr ([], Some df)"
    and kept: "\<forall>y \<in> set (raw_rows okra_frame). \<forall>n p a b c.
        raw_name y = Some n \<and> raw_prot y = Some p \<and> raw_fat y = Some a \<and>
        raw_fib y = Some b \<and> raw_carb y = Some c \<and> None \<notin> set (raw_extra y) \<longrightarrow>
        \<lparr>Food_Name = n, prot_g = p, tot_fat_g = a, tot_fib_g = b, carb_g = c\<rparr> \<in> set (rows df)"
    by blast
  have "?y \<in> set (raw_rows okra_frame)"
    by (simp add: okra_frame_def)
  with kept
  have "\<lparr>Food_Name = ''Okra'', prot_g = -1, tot_fat_g = 0.2, tot_fib_g = 3.2, carb_g = 7\<rparr>
      \<in> set (rows df)"
    by force
  moreover from df have "df = okra_loaded"
    by (simp add: load_okra_frame)
  ultimately show ?thesis
    using df by simp
qed

text \<open>
  C7, as the specification states it, fails: the loader does not deduplicate. Two rows
  of the same name are both kept.
\<close>

theorem loader_keeps_duplicate_names:
  "load_data (Inr okra_frame) = Inr ([], Some okra_loaded) \<and>
   \<not> distinct (map Food_Name (rows okra_loaded))"
  by (simp add: load_okra_frame) (simp add: okra_loaded_def)

text \<open>
  C7, amended. For every input the dataset consists of exactly the rows of the input
  without a missing value, in their order and with their values; a row with any missing
  value is left out. Names are not deduplicated: the names of the dataset are distinct
  just when those of the complete rows of the input are.
\<close>

theorem loader_keeps_complete_rows:
  "\<exists>df. load_data (Inr f) = Inr ([], Some df) \<and>
     map (\<lambda>x. (Some (Food_Name x), Some (prot_g x), Some (tot_fat_g x), Some (tot_fib_g x),
                Some (carb_g x))) (rows df) =
     map (\<lambda>y. (raw_name y, raw_prot y, raw_fat y, raw_fib y, raw_carb y))
       (filter (\<lambda>y. raw_name y \<noteq> None \<and> raw_prot y \<noteq> None \<and> raw_fat y \<noteq> None \<and>
                     raw_fib y \<noteq> None \<and> raw_carb y \<noteq> None \<and> None \<notin> set (raw_extra y))
          (raw_rows f)) \<and>
     (distinct (map Food_Name (rows df)) \<longleftrightarrow>
      distinct (map raw_name
        (filter (\<lambda>y. raw_name y \<noteq> None \<and> raw_prot y \<noteq> None \<and> raw_fat y \<noteq> None \<and>
                      raw_fib y \<noteq> None \<and> raw_carb y \<noteq> None \<and> None \<notin> set (raw_extra y))
           (raw_rows f))))"
proof -
  have "distinct (map (\<lambda>x. Some (Food_Name x)) (dropna (raw_rows f))) =
        distinct (map Food_Name (dropna (raw_rows f)))"
    using distinct_map [of Some "map Food_Name (dropna (raw_rows f))"]
    by (simp add: comp_def)
  then show ?thesis
    unfolding load_data_frame using dropna_filter [of "raw_rows f"] dropna_names [of "raw_rows f"]
    by simp
qed

theorem loader_keeps_complete_rows_witness:
  "filter (\<lambda>y. raw_name y \<noteq> None \<and> raw_prot y \<noteq> None \<and> raw_fat y \<noteq> None \<and>
                raw_fib y \<noteq> None \<and> raw_carb y \<noteq> None \<and> None \<notin> set (raw_extra y))
     (raw_rows okra_frame) = take 2 (raw_rows okra_frame) \<and>
   map (\<lambda>x. (Some (Food_Name x), Some (prot_g x), Some (tot_fat_g x), Some (tot_fib_g x),
              Some (carb_g x))) (rows okra_loaded) =
   map (\<lambda>y. (raw_name y, raw_prot y, raw_fat y, raw_fib y, raw_carb y))
     (take 2 (raw_rows okra_frame))"
proof -
  have k: "filter (\<lambda>y. raw_name y \<noteq> None \<and> raw_prot y \<noteq> None \<and> raw_fat y \<noteq> None \<and>
                     raw_fib y \<noteq> None \<and> raw_carb y \<noteq> None \<and> None \<notin> set (raw_extra y))
          (raw_rows okra_frame) = take 2 (raw_rows okra_frame)"
    by (simp add: okra_frame_def del: not_None_eq)
  from loader_keeps_complete_rows [of okra_frame]
  have "map (\<lambda>x. (Some (Food_Name x), Some (prot_g x), Some (tot_fat_g x), Some (tot_fib_g x),
              Some (carb_g x))) (rows okra_loaded) =
     map (\<lambda>y. (raw_name y, raw_prot y, raw_fat y, raw_fib y, raw_carb y))
       (take 2 (raw_rows okra_frame))"
    unfolding load_okra_frame k by blast
  with k show ?thesis by blast
qed

section \<open>How the loader fails\<close>

text \<open>
  C8. The loader produces a dataset exactly when the file is read; it fails exactly when
  reading fails, the file being missing or unreadable. In either failure mode the page
  shows an error instead of a dataset, and nothing further: for a missing file the
  loader's own message, after which the application returns; for any other failure of
  the reader the exception, which leaves the loader and the application uncaught.
\<close>

theorem loader_failure_modes:
  "((\<exists>shown df. load_data src = Inr (shown, Some df)) \<longleftrightarrow> (\<exists>f. src = Inr f)) \<and>
   load_data (Inl FileNotFoundError) =
     Inr ([StError ''Please upload your csv file to use this app.''], None) \<and>
   script_run (Inl FileNotFoundError) page =
     [StError ''Please upload your csv file to use this app.''] \<and>
   (e \<noteq> FileNotFoundError \<longrightarrow>
      load_data (Inl e) = Inl e \<and> main (Inl e) page = Inl e \<and>
      script_run (Inl e) page = [StException e]) \<and>
   (\<exists>df. load_data (Inr f) = Inr ([], Some df) \<and> script_run (Inr f) page = page df)"
proof (intro conjI)
  show "(\<exists>shown df. load_data src = Inr (shown, Some df)) \<longleftrightarrow> (\<exists>f. src = Inr f)"
  proof (cases src)
    case (Inl x)
    then show ?thesis by (cases x) (simp_all add: load_data_def)
  next
    case (Inr f)
    then show ?thesis by (simp add: load_data_def)
  qed
  show "e \<noteq> FileNotFoundError \<longrightarrow>
      load_data (Inl e) = Inl e \<and> main (Inl e) page = Inl e \<and>
      script_run (Inl e) page = [StException e]"
    by (cases e) (simp_all add: load_data_def main_def script_run_def)
qed (simp_all add: load_data_def main_def script_run_def)

theorem loader_failure_modes_witness:
  "ParserError \<noteq> FileNotFoundError \<and> load_data (Inl ParserError) = Inl ParserError \<and>
   script_run (Inl ParserError) (\<lambda>df. [Rendered ''page'']) = [StException ParserError] \<and>
   script_run (Inl FileNotFoundError) (\<lambda>df. [Rendered ''page'']) =
     [StError ''Please upload your csv file to use this app.''] \<and>
   script_run (Inr okra_frame) (\<lambda>df. [Rendered ''page'']) = [Rendered ''page'']"
  using loader_failure_modes
    [of "Inl ParserError" "\<lambda>df. [Rendered ''page'']" ParserError okra_frame]
  by simp

end
